theory Spec2Isabelle
  imports Main
begin

section \<open>Text: Python strings as sequences of code points\<close>

text \<open>
  A Python \<^verbatim>\<open>str\<close> is a sequence of Unicode code points; slicing and \<^verbatim>\<open>len\<close>
  count code points. A string is therefore a list of code-point numbers, and an ASCII
  literal is converted with \<open>py\<close>.
\<close>

type_synonym py_str = "nat list"

definition py :: "string \<Rightarrow> py_str" where
  "py s = map of_char s"

text \<open>
  The characters \<^verbatim>\<open>str.strip()\<close> removes (those for which \<^verbatim>\<open>str.isspace\<close> holds):
  U+0009..U+000D, U+001C..U+0020, U+0085, U+00A0, U+1680, U+2000..U+200A, U+2028, U+2029,
  U+202F, U+205F, U+3000.
\<close>

definition isspace :: "nat \<Rightarrow> bool" where
  "isspace c \<longleftrightarrow>
     (9 \<le> c \<and> c \<le> 13) \<or> (28 \<le> c \<and> c \<le> 32) \<or> c = 133 \<or> c = 160 \<or> c = 5760 \<or>
     (8192 \<le> c \<and> c \<le> 8202) \<or> c = 8232 \<or> c = 8233 \<or> c = 8239 \<or> c = 8287 \<or> c = 12288"

text \<open>\<^verbatim>\<open>s.strip()\<close>: leading and trailing whitespace removed.\<close>

definition str_strip :: "py_str \<Rightarrow> py_str" where
  "str_strip s = rev (dropWhile isspace (rev (dropWhile isspace s)))"

text \<open>
  \<^verbatim>\<open>s.split(sep)\<close> for a one-character separator: the pieces between the separators,
  empty pieces kept, so the result is never empty (\<^verbatim>\<open>''.split('\n') == ['']\<close>).
\<close>

fun str_split :: "nat \<Rightarrow> py_str \<Rightarrow> py_str list" where
  "str_split sep [] = [[]]"
| "str_split sep (c # cs) =
     (if c = sep then [] # str_split sep cs
      else (case str_split sep cs of
              [] \<Rightarrow> [[c]]
            | w # ws \<Rightarrow> (c # w) # ws))"

text \<open>
  \<^verbatim>\<open>s[i:j]\<close> for \<open>0 \<le> i \<le> j\<close>: out-of-range bounds are clipped, never an error.
\<close>

definition slice :: "nat \<Rightarrow> nat \<Rightarrow> 'a list \<Rightarrow> 'a list" where
  "slice i j xs = take (j - i) (drop i xs)"

section \<open>\<^verbatim>\<open>get_tle_data\<close>\<close>

text \<open>
  The dictionaries appended to \<^verbatim>\<open>satellites\<close>, with keys \<^verbatim>\<open>'name'\<close>,
  \<^verbatim>\<open>'norad_id'\<close>, \<^verbatim>\<open>'line1'\<close>, \<^verbatim>\<open>'line2'\<close>.
\<close>

record satellite =
  name :: py_str
  norad_id :: py_str
  line1 :: py_str
  line2 :: py_str

text \<open>
  The body of the \<^verbatim>\<open>for i in range(0, len(tle_data), 3)\<close> loop for one index whose
  guard \<^verbatim>\<open>i + 2 < len(tle_data)\<close> holds: the dictionary that is appended.
\<close>

definition tle_record :: "py_str list \<Rightarrow> nat \<Rightarrow> satellite" where
  "tle_record tle_data i =
     (let name = str_strip (tle_data ! i);
          line1 = tle_data ! (i + 1);
          line2 = tle_data ! (i + 2);
          norad_id = slice 2 7 line1
      in \<lparr>name = name, norad_id = norad_id, line1 = line1, line2 = line2\<rparr>)"

text \<open>
  The loop itself, with the index \<open>i\<close> stepping by 3 from its start value while it is
  below \<^verbatim>\<open>len(tle_data)\<close>, and \<open>satellites\<close> the list built so far.
\<close>

function tle_loop :: "py_str list \<Rightarrow> nat \<Rightarrow> satellite list \<Rightarrow> satellite list" where
  "tle_loop tle_data i satellites =
     (if i < length tle_data
      then tle_loop tle_data (i + 3)
             (if i + 2 < length tle_data
              then satellites @ [tle_record tle_data i]
              else satellites)
      else satellites)"
  by pat_completeness auto
termination
  by (relation "measure (\<lambda>(tle_data, i, satellites). length tle_data - i)") auto

declare tle_loop.simps [simp del]

text \<open>
  \<^verbatim>\<open>get_tle_data\<close> as a function of the text of the HTTP response (the request itself is
  outside the model). Newline is code point 10.
\<close>

definition get_tle_data :: "py_str \<Rightarrow> satellite list" where
  "get_tle_data response_text =
     (let tle_data = str_split 10 (str_strip response_text)
      in tle_loop tle_data 0 [])"

section \<open>\<^verbatim>\<open>calculate_satellite_positions\<close>\<close>

text \<open>
  The function calls the PyEphem and NumPy libraries, whose code is not part of the
  program. They enter the model as a record of the operations the function uses:
  \<^item> \<open>'e\<close> the exceptions the libraries raise, \<open>'f\<close> Python floats (ephem's \<^verbatim>\<open>Angle\<close> and
    \<^verbatim>\<open>Date\<close> are floats), \<open>'t\<close> the instants handed in (\<^verbatim>\<open>datetime\<close>), \<open>'b\<close> the state of
    an ephem body object;
  \<^item> every library call that can raise returns a sum, \<open>Inl\<close> the exception.
\<close>

record 'f observer =
  obs_lat :: 'f
  obs_lon :: 'f
  obs_date :: 'f

record ('e, 'f, 't, 'b) ephem =
  Observer :: "'f \<Rightarrow> 'f observer"
    \<comment> \<open>\<^verbatim>\<open>ephem.Observer()\<close>; its date starts as the clock reading given\<close>
  str :: "'f \<Rightarrow> py_str"
    \<comment> \<open>\<^verbatim>\<open>str(x)\<close> of a float\<close>
  angle :: "py_str \<Rightarrow> 'e + 'f"
    \<comment> \<open>the conversion done by assigning a string to \<^verbatim>\<open>observer.lat\<close> or \<^verbatim>\<open>observer.lon\<close>\<close>
  Date :: "'t \<Rightarrow> 'e + 'f"
    \<comment> \<open>the conversion done by assigning to \<^verbatim>\<open>observer.date\<close>\<close>
  readtle :: "py_str \<Rightarrow> py_str \<Rightarrow> py_str \<Rightarrow> 'e + 'b"
    \<comment> \<open>\<^verbatim>\<open>ephem.readtle(name, line1, line2)\<close>\<close>
  compute :: "'b \<Rightarrow> 'f observer \<Rightarrow> 'e + 'b"
    \<comment> \<open>\<^verbatim>\<open>satellite.compute(observer)\<close>: the body object after the call\<close>
  sublat :: "'b \<Rightarrow> 'f"
  sublong :: "'b \<Rightarrow> 'f"
  degrees :: "'f \<Rightarrow> 'f"
    \<comment> \<open>\<^verbatim>\<open>np.degrees\<close>\<close>

text \<open>The dictionaries appended to \<^verbatim>\<open>positions\<close>.\<close>

record ('t, 'f) position =
  time :: 't
  lat :: 'f
  lon :: 'f

text \<open>
  The body of \<^verbatim>\<open>for time in times\<close> up to the call of \<^verbatim>\<open>compute\<close>, for the
  instant \<open>t\<close> (the loop variable \<^verbatim>\<open>time\<close>): the date is assigned, then the body is
  computed for the observer. An exception of either ends it.
\<close>

definition compute_at ::
  "('e, 'f, 't, 'b) ephem \<Rightarrow> 'b \<Rightarrow> 'f observer \<Rightarrow> 't \<Rightarrow> 'e + ('b \<times> 'f observer)" where
  "compute_at E satellite observer t =
     (case Date E t of
        Inl e \<Rightarrow> Inl e
      | Inr d \<Rightarrow>
          (let observer = observer\<lparr>obs_date := d\<rparr> in
           case compute E satellite observer of
             Inl e \<Rightarrow> Inl e
           | Inr satellite \<Rightarrow> Inr (satellite, observer)))"

text \<open>The dictionary built from the computed body in one iteration.\<close>

definition position_of :: "('e, 'f, 't, 'b) ephem \<Rightarrow> 't \<Rightarrow> 'b \<Rightarrow> ('t, 'f) position" where
  "position_of E t satellite =
     (let lat = degrees E (sublat E satellite);
          lon = degrees E (sublong E satellite)
      in \<lparr>time = t, lat = lat, lon = lon\<rparr>)"

text \<open>
  The loop over \<^verbatim>\<open>times\<close> (here \<open>instants\<close>). The body object and the observer are
  mutated by every iteration, so both are passed on; an exception leaves the loop at once.
\<close>

fun positions_loop ::
  "('e, 'f, 't, 'b) ephem \<Rightarrow> 'b \<Rightarrow> 'f observer \<Rightarrow> 't list \<Rightarrow> ('t, 'f) position list
     \<Rightarrow> 'e + ('t, 'f) position list" where
  "positions_loop E satellite observer [] positions = Inr positions"
| "positions_loop E satellite observer (t # instants) positions =
     (case compute_at E satellite observer t of
        Inl e \<Rightarrow> Inl e
      | Inr (satellite, observer) \<Rightarrow>
          positions_loop E satellite observer instants
            (positions @ [position_of E t satellite]))"

text \<open>
  The whole function. \<open>now\<close> is the clock reading \<^verbatim>\<open>ephem.Observer()\<close> takes; \<open>sat\<close> is
  one of the dictionaries of \<^verbatim>\<open>get_tle_data\<close>.
\<close>

definition calculate_satellite_positions ::
  "('e, 'f, 't, 'b) ephem \<Rightarrow> 'f \<Rightarrow> satellite \<Rightarrow> 'f \<Rightarrow> 'f \<Rightarrow> 't list
     \<Rightarrow> 'e + ('t, 'f) position list" where
  "calculate_satellite_positions E now sat observer_lat observer_lon instants =
     (let observer = Observer E now in
      case angle E (str E observer_lat) of
        Inl e \<Rightarrow> Inl e
      | Inr a \<Rightarrow>
          (let observer = observer\<lparr>obs_lat := a\<rparr> in
           case angle E (str E observer_lon) of
             Inl e \<Rightarrow> Inl e
           | Inr b \<Rightarrow>
               (let observer = observer\<lparr>obs_lon := b\<rparr> in
                case readtle E (name sat) (line1 sat) (line2 sat) of
                  Inl e \<Rightarrow> Inl e
                | Inr satellite \<Rightarrow> positions_loop E satellite observer instants [])))"

section \<open>Notions used to state the properties\<close>


text \<open>
  The check digit of the two-line element format: the sum, modulo 10, of the digits of the
  first 68 columns of a line, every minus sign counting 1 and every other character 0. A
  well-formed line carries it in column 69. The program computes it nowhere; it is defined
  here to say which inputs have a mismatched check digit. Digits are the code points
  48..57, the minus sign is 45.
\<close>

definition tle_checksum :: "py_str \<Rightarrow> nat" where
  "tle_checksum columns =
     sum_list (map (\<lambda>c. if 48 \<le> c \<and> c \<le> 57 then c - 48 else if c = 45 then 1 else 0) columns)
       mod 10"

definition checksum_mismatch :: "py_str \<Rightarrow> bool" where
  "checksum_mismatch line \<longleftrightarrow>
     length line = 69 \<and> line ! 68 \<noteq> 48 + tle_checksum (take 68 line)"

section \<open>Example inputs\<close>

text \<open>
  An element set of the ISS (the check digit of its line 1 is 7), line 1 with another
  character \<open>d\<close> in the check-digit column, and a response of one three-line group.
\<close>

definition iss_name :: py_str where
  "iss_name = py ''ISS (ZARYA)''"

definition iss_line1 :: py_str where
  "iss_line1 = py ''1 25544U 98067A   08264.51782528 -.00002182  00000-0 -11606-4 0  2927''"

definition iss_line2 :: py_str where
  "iss_line2 = py ''2 25544  51.6416 247.4627 0006703 130.5360 325.0288 15.72125391563537''"

definition iss_line1_with :: "nat \<Rightarrow> py_str" where
  "iss_line1_with d = take 68 iss_line1 @ [d]"

definition response_of :: "py_str \<Rightarrow> py_str \<Rightarrow> py_str \<Rightarrow> py_str" where
  "response_of n l1 l2 = n @ [10] @ l1 @ [10] @ l2 @ [10]"

text \<open>
  A response whose line 1 has five characters, and one of five lines: a complete group
  followed by two more lines.
\<close>

definition short_response :: py_str where
  "short_response = response_of (py ''A'') (py ''1 255'') (py ''2'')"

definition five_line_response :: py_str where
  "five_line_response = response_of (py ''A    '') (py ''1 255'') (py ''2'') @ py ''B'' @ [10] @ py ''1 7''"

text \<open>
  A stand-in for the libraries, for running the model on concrete inputs: floats are
  integers, instants are day numbers, the body object holds the date it was last computed
  for, a date more than 365 days out raises, and an empty line 1 is rejected.
\<close>

definition stub_ephem :: "(string, int, nat, int) ephem" where
  "stub_ephem =
     \<lparr>Observer = (\<lambda>now. \<lparr>obs_lat = 0, obs_lon = 0, obs_date = now\<rparr>),
      str = (\<lambda>x. if x < 0 then [45, 48 + nat (- x)] else [48 + nat x]),
      angle = (\<lambda>s. case s of
                 [c] \<Rightarrow> if 48 \<le> c \<and> c \<le> 57 then Inr (int c - 48) else Inl ''ValueError''
               | _ \<Rightarrow> Inl ''ValueError''),
      Date = (\<lambda>t. Inr (int t)),
      readtle = (\<lambda>n l1 l2. if l1 = [] then Inl ''ValueError'' else Inr 0),
      compute = (\<lambda>b ob. if 365 < obs_date ob then Inl ''ValueError'' else Inr (obs_date ob)),
      sublat = (\<lambda>b. b),
      sublong = (\<lambda>b. - b),
      degrees = (\<lambda>x. 180 * x)\<rparr>"

definition stub_sat :: satellite where
  "stub_sat = \<lparr>name = py ''A'', norad_id = [], line1 = py ''1'', line2 = py ''2''\<rparr>"

section \<open>Lemmas about the loops\<close>

subsection \<open>The loop of \<^verbatim>\<open>get_tle_data\<close>\<close>

text \<open>
  Started at a multiple of 3, the loop appends the record of every index \<open>3 * j\<close> with
  \<open>j\<close> below a third of the number of lines (rounded down), in order.
\<close>

lemma tle_loop_eq:
  "tle_loop ls (3 * k) acc = acc @ map (\<lambda>j. tle_record ls (3 * j)) [k ..< length ls div 3]"
proof (induction "length ls - 3 * k" arbitrary: k acc rule: less_induct)
  case less
  show ?case
  proof (cases "3 * k < length ls")
    case False
    then have "length ls div 3 \<le> k" by simp
    with False show ?thesis by (subst tle_loop.simps) simp
  next
    case True
    have step: "3 * k + 3 = 3 * Suc k" by simp
    have IH: "\<And>acc'. tle_loop ls (3 * Suc k) acc'
        = acc' @ map (\<lambda>j. tle_record ls (3 * j)) [Suc k ..< length ls div 3]"
      using less [of "Suc k"] True by simp
    show ?thesis
    proof (cases "3 * k + 2 < length ls")
      case True
      then have "k < length ls div 3" by simp
      then have "[k ..< length ls div 3] = k # [Suc k ..< length ls div 3]"
        by (simp add: upt_conv_Cons)
      with True \<open>3 * k < length ls\<close> show ?thesis
        by (subst tle_loop.simps) (simp add: step IH del: mult_Suc_right)
    next
      case False
      then have "length ls div 3 \<le> k" by simp
      with False \<open>3 * k < length ls\<close> show ?thesis
        by (subst tle_loop.simps) (simp add: step IH del: mult_Suc_right)
    qed
  qed
qed

lemma tle_record_eq:
  "tle_record tle_data i =
     \<lparr>name = str_strip (tle_data ! i), norad_id = slice 2 7 (tle_data ! (i + 1)),
      line1 = tle_data ! (i + 1), line2 = tle_data ! (i + 2)\<rparr>"
  by (simp add: tle_record_def Let_def)

lemma str_split_not_Nil: "str_split sep s \<noteq> []"
  by (induction s) (auto split: list.splits)

lemma length_str_split: "length (str_split sep s) = Suc (count_list s sep)"
proof (induction s)
  case Nil
  show ?case by simp
next
  case (Cons c cs)
  then show ?case
    using str_split_not_Nil [of sep cs] by (auto split: list.splits)
qed

lemma get_tle_data_eq:
  "get_tle_data text =
     map (\<lambda>j. tle_record (str_split 10 (str_strip text)) (3 * j))
       [0 ..< length (str_split 10 (str_strip text)) div 3]"
  using tle_loop_eq [of "str_split 10 (str_strip text)" 0 "[]"]
  by (simp add: get_tle_data_def)

subsection \<open>The loop of \<^verbatim>\<open>calculate_satellite_positions\<close>\<close>






lemma positions_loop_time:
  "positions_loop E s ob ts acc = Inr ps \<Longrightarrow> map time ps = map time acc @ ts"
proof (induction ts arbitrary: s ob acc)
  case Nil
  then show ?case by auto
next
  case (Cons t ts)
  then show ?case
    by (auto simp: position_of_def Let_def split: sum.splits prod.splits)
qed

text \<open>
  Every iteration assigns the date before it computes, so the date the observer had
  before does not matter.
\<close>

lemma compute_at_observer:
  "obs_lat ob1 = obs_lat ob2 \<Longrightarrow> obs_lon ob1 = obs_lon ob2 \<Longrightarrow>
   compute_at E s ob1 t = compute_at E s ob2 t"
proof -
  assume a: "obs_lat ob1 = obs_lat ob2" "obs_lon ob1 = obs_lon ob2"
  have "\<And>d. ob1\<lparr>obs_date := d\<rparr> = ob2\<lparr>obs_date := d\<rparr>"
    using a by (intro observer.equality) simp_all
  then show ?thesis
    by (cases "Date E t") (simp_all add: compute_at_def)
qed

lemma positions_loop_observer:
  "obs_lat ob1 = obs_lat ob2 \<Longrightarrow> obs_lon ob1 = obs_lon ob2 \<Longrightarrow>
   positions_loop E s ob1 ts acc = positions_loop E s ob2 ts acc"
  by (cases ts) (simp_all add: compute_at_observer [of ob1 ob2])

section \<open>The claims\<close>

subsection \<open>C1: one position per instant, in order\<close>



subsection \<open>C4: determinism\<close>

text \<open>
  C4. Two calls of \<^verbatim>\<open>calculate_satellite_positions\<close> with the same element set, the
  same observer and the same instants give the same result. The model is a function of
  these inputs, of the library operations and of one more value, the clock reading that
  \<^verbatim>\<open>ephem.Observer()\<close> stores as the observer's date when it is created; it is the only
  thing that differs between two calls. The result does not depend on it, because every
  iteration assigns the date before it computes. (The library operations are taken to be
  functions of their arguments.)
\<close>

theorem clock_independent:
  "calculate_satellite_positions E now sat observer_lat observer_lon instants
     = calculate_satellite_positions E now' sat observer_lat observer_lon instants"
proof (cases "angle E (str E observer_lat)")
  case (Inl e)
  then show ?thesis by (simp add: calculate_satellite_positions_def)
next
  case a: (Inr a)
  show ?thesis
  proof (cases "angle E (str E observer_lon)")
    case (Inl e)
    with a show ?thesis by (simp add: calculate_satellite_positions_def)
  next
    case b: (Inr b)
    show ?thesis
    proof (cases "readtle E (name sat) (line1 sat) (line2 sat)")
      case (Inl e)
      with a b show ?thesis by (simp add: calculate_satellite_positions_def)
    next
      case (Inr satellite)
      have "positions_loop E satellite ((Observer E now)\<lparr>obs_lat := a, obs_lon := b\<rparr>) instants []
          = positions_loop E satellite ((Observer E now')\<lparr>obs_lat := a, obs_lon := b\<rparr>) instants []"
        by (rule positions_loop_observer) simp_all
      with a b Inr show ?thesis by (simp add: calculate_satellite_positions_def)
    qed
  qed
qed

subsection \<open>C5: the check digit\<close>

text \<open>
  C5, as stated, fails: for the ISS lines with the check digit of line 1 changed from 7
  to 0, \<^verbatim>\<open>get_tle_data\<close> returns a record, not an error.
\<close>

theorem altered_checksum_counterexample:
  "checksum_mismatch (iss_line1_with 48)
   \<and> get_tle_data (response_of iss_name (iss_line1_with 48) iss_line2)
       = [\<lparr>name = iss_name, norad_id = py ''25544'',
           line1 = iss_line1_with 48, line2 = iss_line2\<rparr>]"
proof -
  have "checksum_mismatch (iss_line1_with 48)"
    by (simp add: checksum_mismatch_def iss_line1_with_def iss_line1_def py_def
        tle_checksum_def)
  moreover have "get_tle_data (response_of iss_name (iss_line1_with 48) iss_line2)
       = [\<lparr>name = iss_name, norad_id = py ''25544'',
           line1 = iss_line1_with 48, line2 = iss_line2\<rparr>]"
    by (simp add: get_tle_data_eq response_of_def iss_name_def iss_line1_with_def
        iss_line1_def iss_line2_def py_def str_strip_def isspace_def tle_record_eq slice_def)
  ultimately show ?thesis by simp
qed

text \<open>
  C5, amended. \<^verbatim>\<open>get_tle_data\<close> does not check the check digit: for a response of three
  lines whose line 1 has 69 characters and a mismatched check digit, it returns one record
  that holds line 1 as it came, with the identifier cut from it.
\<close>

theorem checksum_not_validated:
  assumes "str_split 10 (str_strip response_text) = [n, l1, l2]"
    and "checksum_mismatch l1"
  shows "get_tle_data response_text
           = [\<lparr>name = str_strip n, norad_id = slice 2 7 l1, line1 = l1, line2 = l2\<rparr>]"
  using assms(1) by (simp add: get_tle_data_eq tle_record_eq)

text \<open>Check digit 3 instead of 7, and a name padded with spaces.\<close>

theorem checksum_not_validated_witness:
  "str_split 10 (str_strip (response_of (iss_name @ py ''   '') (iss_line1_with 51) iss_line2))
     = [iss_name @ py ''   '', iss_line1_with 51, iss_line2]
   \<and> checksum_mismatch (iss_line1_with 51)
   \<and> get_tle_data (response_of (iss_name @ py ''   '') (iss_line1_with 51) iss_line2)
       = [\<lparr>name = iss_name, norad_id = py ''25544'',
           line1 = iss_line1_with 51, line2 = iss_line2\<rparr>]"
proof -
  have h1: "str_split 10
      (str_strip (response_of (iss_name @ py ''   '') (iss_line1_with 51) iss_line2))
     = [iss_name @ py ''   '', iss_line1_with 51, iss_line2]"
    by (simp add: response_of_def iss_name_def iss_line1_with_def iss_line1_def iss_line2_def
        py_def str_strip_def isspace_def)
  have h2: "checksum_mismatch (iss_line1_with 51)"
    by (simp add: checksum_mismatch_def iss_line1_with_def iss_line1_def py_def
        tle_checksum_def)
  have n: "str_strip (iss_name @ py ''   '') = iss_name"
    by (simp add: iss_name_def py_def str_strip_def isspace_def)
  have s: "slice 2 7 (iss_line1_with 51) = py ''25544''"
    by (simp add: iss_line1_with_def iss_line1_def py_def slice_def)
  from checksum_not_validated [OF h1 h2] n s
  have "get_tle_data (response_of (iss_name @ py ''   '') (iss_line1_with 51) iss_line2)
       = [\<lparr>name = iss_name, norad_id = py ''25544'',
           line1 = iss_line1_with 51, line2 = iss_line2\<rparr>]"
    by simp
  with h1 h2 show ?thesis by simp
qed

subsection \<open>C6: the catalog identifier\<close>

text \<open>
  C6, as stated, fails: a line 1 of five characters gives an identifier of three
  characters, not five.
\<close>

theorem norad_id_short_line_counterexample:
  "get_tle_data short_response
     = [\<lparr>name = py ''A'', norad_id = py ''255'', line1 = py ''1 255'', line2 = py ''2''\<rparr>]
   \<and> length (norad_id (get_tle_data short_response ! 0)) = 3"
  by (simp add: get_tle_data_eq short_response_def response_of_def py_def str_strip_def
      isspace_def tle_record_eq slice_def)

text \<open>
  C6, amended. In every record the identifier is \<^verbatim>\<open>line1[2:7]\<close>, with no condition: the
  characters 3 to 7 of line 1 (counted from 1) as far as line 1 has them. When line 1 has
  at least 7 characters these are exactly 5 characters; when it is shorter, the identifier
  has only the \<open>length line1 - 2\<close> characters that exist (none for fewer than 3).
\<close>

theorem norad_id_is_slice:
  assumes "r \<in> set (get_tle_data response_text)"
  shows "norad_id r = slice 2 7 (line1 r)
       \<and> length (norad_id r) = min 5 (length (line1 r) - 2)
       \<and> (7 \<le> length (line1 r) \<longrightarrow>
            length (norad_id r) = 5 \<and> (\<forall>j < 5. norad_id r ! j = line1 r ! (j + 2)))"
proof -
  from assms obtain j where "r = tle_record (str_split 10 (str_strip response_text)) (3 * j)"
    by (auto simp: get_tle_data_eq)
  then have eq: "norad_id r = slice 2 7 (line1 r)"
    by (simp add: tle_record_eq)
  then have len: "length (norad_id r) = min 5 (length (line1 r) - 2)"
    by (simp add: slice_def min.commute)
  have "norad_id r ! j = line1 r ! (j + 2)" if "7 \<le> length (line1 r)" "j < 5" for j
    using that eq by (simp add: slice_def add.commute)
  with eq len show ?thesis by auto
qed

text \<open>The record of the ISS.\<close>

theorem norad_id_is_slice_witness:
  "\<lparr>name = iss_name, norad_id = py ''25544'', line1 = iss_line1, line2 = iss_line2\<rparr>
     \<in> set (get_tle_data (response_of iss_name iss_line1 iss_line2))
   \<and> py ''25544'' = slice 2 7 iss_line1
   \<and> 7 \<le> length iss_line1
   \<and> length (py ''25544'') = 5"
proof -
  have h: "\<lparr>name = iss_name, norad_id = py ''25544'', line1 = iss_line1, line2 = iss_line2\<rparr>
     \<in> set (get_tle_data (response_of iss_name iss_line1 iss_line2))"
    by (simp add: get_tle_data_eq response_of_def iss_name_def iss_line1_def iss_line2_def
        py_def str_strip_def isspace_def tle_record_eq slice_def)
  have l: "7 \<le> length iss_line1"
    by (simp add: iss_line1_def py_def)
  from norad_id_is_slice [OF h]
  have "py ''25544'' = slice 2 7 iss_line1"
    by simp
  moreover have "length (py ''25544'') = 5"
    by (simp add: py_def)
  ultimately show ?thesis using h l by simp
qed

subsection \<open>C7: failing fast\<close>



subsection \<open>C9: the instants are echoed\<close>

text \<open>
  C9. For every list of instants, of any length, the \<^verbatim>\<open>'time'\<close> entries of the returned
  positions are the given instants, unchanged and in the same order.
\<close>

theorem positions_echo_instants:
  "calculate_satellite_positions E now sat observer_lat observer_lon instants = Inr positions
   \<Longrightarrow> map time positions = instants"
  using positions_loop_time [of E _ _ instants "[]" positions]
  by (auto simp: calculate_satellite_positions_def Let_def split: sum.splits)

text \<open>Three instants out of order, and the empty list.\<close>

theorem positions_echo_instants_witness:
  "calculate_satellite_positions stub_ephem 7 stub_sat 3 4 [30, 10, 20]
     = Inr [\<lparr>time = 30, lat = 5400, lon = - 5400\<rparr>, \<lparr>time = 10, lat = 1800, lon = - 1800\<rparr>,
            \<lparr>time = 20, lat = 3600, lon = - 3600\<rparr>]
   \<and> map time [\<lparr>time = 30, lat = 5400, lon = - 5400\<rparr>, \<lparr>time = 10, lat = 1800, lon = - 1800\<rparr>,
            \<lparr>time = 20, lat = 3600, lon = - 3600::int\<rparr>] = [30, 10, 20::nat]
   \<and> calculate_satellite_positions stub_ephem 7 stub_sat 3 4 [] = Inr []"
proof -
  have h: "calculate_satellite_positions stub_ephem 7 stub_sat 3 4 [30, 10, 20]
     = Inr [\<lparr>time = 30, lat = 5400, lon = - 5400\<rparr>, \<lparr>time = 10, lat = 1800, lon = - 1800\<rparr>,
            \<lparr>time = 20, lat = 3600, lon = - 3600\<rparr>]"
    by (simp add: calculate_satellite_positions_def stub_ephem_def stub_sat_def py_def
        compute_at_def position_of_def)
  have e: "calculate_satellite_positions stub_ephem 7 stub_sat 3 4 [] = Inr []"
    by (simp add: calculate_satellite_positions_def stub_ephem_def stub_sat_def py_def)
  from positions_echo_instants [OF h] h e show ?thesis by blast
qed

subsection \<open>C10: one record per complete group of three lines\<close>

text \<open>
  C10. Let \<open>tle_data\<close> be the lines of the response text: the text with leading and
  trailing whitespace removed, cut at every newline (one line more than it has newlines).
  \<^verbatim>\<open>get_tle_data\<close> returns exactly \<open>length tle_data div 3\<close> records, and record \<open>k\<close> is made
  of lines \<open>3k\<close>, \<open>3k + 1\<close> and \<open>3k + 2\<close>, in order. One or two lines left over at the end
  give no record; the function has no error result.
\<close>

theorem get_tle_data_groups:
  assumes "tle_data = str_split 10 (str_strip response_text)"
  shows "length tle_data = Suc (count_list (str_strip response_text) 10)
       \<and> length (get_tle_data response_text) = length tle_data div 3
       \<and> (\<forall>k < length tle_data div 3.
             get_tle_data response_text ! k =
               \<lparr>name = str_strip (tle_data ! (3 * k)),
                norad_id = slice 2 7 (tle_data ! (3 * k + 1)),
                line1 = tle_data ! (3 * k + 1),
                line2 = tle_data ! (3 * k + 2)\<rparr>)"
  using assms by (simp add: get_tle_data_eq tle_record_eq length_str_split)

text \<open>Five lines give one record.\<close>

theorem get_tle_data_groups_witness:
  "str_split 10 (str_strip five_line_response)
     = [py ''A    '', py ''1 255'', py ''2'', py ''B'', py ''1 7'']
   \<and> length (get_tle_data five_line_response) = 1
   \<and> get_tle_data five_line_response ! 0
       = \<lparr>name = py ''A'', norad_id = py ''255'', line1 = py ''1 255'', line2 = py ''2''\<rparr>"
proof -
  have h: "[py ''A    '', py ''1 255'', py ''2'', py ''B'', py ''1 7'']
      = str_split 10 (str_strip five_line_response)"
    by (simp add: five_line_response_def response_of_def py_def str_strip_def isspace_def)
  from get_tle_data_groups [OF h]
  have "length (get_tle_data five_line_response) = 1"
    and "get_tle_data five_line_response ! 0
       = \<lparr>name = py ''A'', norad_id = py ''255'', line1 = py ''1 255'', line2 = py ''2''\<rparr>"
    by (simp_all add: py_def str_strip_def isspace_def slice_def)
  with h show ?thesis by simp
qed

end
